theory Spec2Isabelle
  imports Main "HOL-Library.AList"
begin

section \<open>Session state of the financial deep agent\<close>

text \<open>
  A shallow embedding of \<^verbatim>\<open>agent_state.py\<close> (the session state and its helper
  operations) and of the delegation tool \<^verbatim>\<open>task\<close> of \<^verbatim>\<open>sub_agent_delegation.py\<close>.

  Conventions of the embedding.
  \<^item> Python passes the state dictionary by reference and the helpers mutate it in place;
    here every operation takes the state and returns the state it leaves behind, next to
    its return value when it has one.
  \<^item> A Python \<^verbatim>\<open>dict\<close> is an association list in insertion order: lookup is
    \<open>map_of\<close>, item assignment is \<open>AList.update\<close> (an existing key keeps its place, a
    new key goes to the end), \<^verbatim>\<open>del\<close> is \<open>AList.delete\<close>.
  \<^item> Values of type \<^verbatim>\<open>Any\<close> range over a type variable \<open>'v\<close>.
  \<^item> Every call of \<^verbatim>\<open>datetime.now()\<close> is a reading of the clock and is a parameter
    of the operation, in the order in which the source reads it.
  \<^item> A \<^verbatim>\<open>str\<close> is a \<open>string\<close>, one element per character, so that
    \<^verbatim>\<open>len\<close> is \<open>length\<close>.
\<close>

subsection \<open>Decimal text of numbers\<close>

definition digit_char :: "nat \<Rightarrow> char" where
  "digit_char d = char_of (48 + d)"

fun str_nat :: "nat \<Rightarrow> string" where
  "str_nat n = (if n < 10 then [digit_char n] else str_nat (n div 10) @ [digit_char (n mod 10)])"

declare str_nat.simps [simp del]

definition str_int :: "int \<Rightarrow> string" where
  "str_int i = (if i < 0 then CHR ''-'' # str_nat (nat (- i)) else str_nat (nat i))"

text \<open>The two-digit, zero-padded fields of \<^verbatim>\<open>strftime\<close> (\<^verbatim>\<open>%H\<close>, \<^verbatim>\<open>%M\<close>,
  \<^verbatim>\<open>%S\<close>, \<^verbatim>\<open>%m\<close>, \<^verbatim>\<open>%d\<close>); the argument is below 100.\<close>

definition pad2 :: "nat \<Rightarrow> string" where
  "pad2 n = [digit_char (n div 10), digit_char (n mod 10)]"

subsection \<open>Dates and times\<close>

text \<open>
  A naive \<^verbatim>\<open>datetime\<close> is the number of microseconds since 0001-01-01T00:00:00; the
  values Python can hold are \<open>0 .. datetime_max\<close>. The state stores timestamps as their
  \<^verbatim>\<open>isoformat()\<close> text, which \<^verbatim>\<open>fromisoformat\<close> reads back to the same value, so
  the embedding stores the value itself.
\<close>

type_synonym datetime = int

definition datetime_max :: datetime where
  "datetime_max = 3652059 * 86400 * 1000000 - 1"

datatype py_error = OverflowError

text \<open>\<^verbatim>\<open>now + timedelta(minutes=m)\<close>: raises \<^verbatim>\<open>OverflowError\<close> when the sum is not a
  date Python can hold.\<close>

definition add_minutes :: "datetime \<Rightarrow> int \<Rightarrow> py_error + datetime" where
  "add_minutes now m =
     (let r = now + m * 60000000
      in if 0 \<le> r \<and> r \<le> datetime_max then Inr r else Inl OverflowError)"

definition second_of_day :: "datetime \<Rightarrow> nat" where
  "second_of_day t = nat ((t div 1000000) mod 86400)"

text \<open>\<^verbatim>\<open>strftime('%H%M%S')\<close>\<close>

definition strftime_HMS :: "datetime \<Rightarrow> string" where
  "strftime_HMS t =
     (let s = second_of_day t
      in pad2 (s div 3600) @ pad2 ((s div 60) mod 60) @ pad2 (s mod 60))"

text \<open>The calendar date of a day number (day 0 is 0001-01-01), by the computation of
  Python's \<^verbatim>\<open>datetime\<close> module.\<close>

definition days_before_month :: "nat \<Rightarrow> nat" where
  "days_before_month m = [0, 0, 31, 59, 90, 120, 151, 181, 212, 243, 273, 304, 334] ! m"

definition days_in_month :: "nat \<Rightarrow> nat" where
  "days_in_month m = [0, 31, 28, 31, 30, 31, 30, 31, 31, 30, 31, 30, 31] ! m"

definition ord2ymd :: "nat \<Rightarrow> nat \<times> nat \<times> nat" where
  "ord2ymd n0 =
     (let n400 = n0 div 146097; n = n0 mod 146097;
          n100 = n div 36524; n = n mod 36524;
          n4 = n div 1461; n = n mod 1461;
          n1 = n div 365; n = n mod 365;
          year = n400 * 400 + 1 + n100 * 100 + n4 * 4 + n1
      in if n1 = 4 \<or> n100 = 4 then (year - 1, 12, 31)
         else
           let leapyear = (n1 = 3 \<and> (n4 \<noteq> 24 \<or> n100 = 3));
               month = (n + 50) div 32;
               preceding = days_before_month month + (if month > 2 \<and> leapyear then 1 else 0)
           in if preceding > n
              then let month' = month - 1;
                       preceding' = preceding -
                         (days_in_month month' + (if month' = 2 \<and> leapyear then 1 else 0))
                   in (year, month', n - preceding' + 1)
              else (year, month, n - preceding + 1))"

text \<open>\<^verbatim>\<open>strftime('%Y%m%d_%H%M%S')\<close>; the year is written without padding, as the C
  library on Linux does (this matters before the year 1000 only).\<close>

definition strftime_Ymd_HMS :: "datetime \<Rightarrow> string" where
  "strftime_Ymd_HMS t =
     (case ord2ymd (nat (t div 86400000000)) of
        (y, m, d) \<Rightarrow> str_nat y @ pad2 m @ pad2 d @ ''_'' @ strftime_HMS t)"

subsection \<open>Data model\<close>

type_synonym ('k, 'v) dict = "('k \<times> 'v) list"

datatype TodoStatus = pending | in_progress | completed | cancelled

datatype Priority = low | medium | high | urgent

record 'v TodoItem =
  todo_id :: string
  todo_task :: string
  todo_status :: TodoStatus
  todo_created_at :: datetime
  todo_updated_at :: datetime
  todo_priority :: Priority
  todo_assigned_agent :: "string option"
  todo_dependencies :: "string list"
  todo_metadata :: "(string, 'v) dict"

datatype FileType = type_file | type_directory

record 'v FileSystemItem =
  file_name :: string
  file_content :: string
  file_type :: FileType
  file_created_at :: datetime
  file_updated_at :: datetime
  file_size :: nat
  file_metadata :: "(string, 'v) dict"

text \<open>A record of the operation log: the dictionary of a read has no \<^verbatim>\<open>size\<close> key.\<close>

datatype FileOperation = op_write | op_read

record FileOperationLog =
  log_operation :: FileOperation
  log_filename :: string
  log_timestamp :: datetime
  log_size :: "nat option"

record 'v FinancialDataCache =
  cache_symbol :: string
  cache_data_type :: string
  cache_data :: "(string, 'v) dict"
  cache_timestamp :: datetime
  cache_expiry :: datetime

datatype SubAgentStatus = idle | working | agent_completed | agent_error

record 'v SubAgentInfo =
  agent_name :: string
  agent_description :: string
  agent_tools :: "string list"
  agent_status_of :: SubAgentStatus
  agent_created_at :: datetime
  agent_last_active :: datetime
  agent_results :: "(string, 'v) dict option"

datatype AgentStatus =
  initializing | planning | executing | delegating | summarizing | session_completed | session_error

datatype BaseMessage = HumanMessage string | AIMessage string | SystemMessage string

record 'v DeepAgentState =
  messages :: "BaseMessage list"
  todos :: "'v TodoItem list"
  current_task :: "string option"
  planning_context :: "(string, 'v) dict"
  files :: "(string, 'v FileSystemItem) dict"
  current_directory :: string
  file_operations_log :: "FileOperationLog list"
  sub_agents :: "(string, 'v SubAgentInfo) dict"
  active_sub_agents :: "string list"
  delegation_history :: "(string, 'v) dict list"
  financial_cache :: "(string, 'v FinancialDataCache) dict"
  watchlist :: "string list"
  portfolio :: "(string, (string, 'v) dict) dict"
  market_data :: "(string, 'v) dict"
  research_context :: "(string, 'v) dict"
  analysis_results :: "(string, 'v) dict list"
  web_search_results :: "(string, 'v) dict list"
  iteration_count :: int
  max_iterations :: int
  start_time :: datetime
  last_activity :: datetime
  agent_status :: AgentStatus
  session_id :: string
  user_preferences :: "(string, 'v) dict"
  conversation_context :: "(string, 'v) dict"

subsection \<open>Operations of the session state\<close>

text \<open>\<^verbatim>\<open>create_initial_state\<close>: \<open>now_id\<close> is the clock reading that names the session
  when no (or an empty) session id is given, \<open>now\<close> the one that stamps the state.\<close>

definition create_initial_state ::
  "string \<Rightarrow> string option \<Rightarrow> int \<Rightarrow> datetime \<Rightarrow> datetime \<Rightarrow> 'v DeepAgentState" where
  "create_initial_state user_message sid max_iter now_id now =
     \<lparr> messages = [HumanMessage user_message],
       todos = [],
       current_task = None,
       planning_context = [],
       files = [],
       current_directory = ''/'',
       file_operations_log = [],
       sub_agents = [],
       active_sub_agents = [],
       delegation_history = [],
       financial_cache = [],
       watchlist = [],
       portfolio = [],
       market_data = [],
       research_context = [],
       analysis_results = [],
       web_search_results = [],
       iteration_count = 0,
       max_iterations = max_iter,
       start_time = now,
       last_activity = now,
       agent_status = initializing,
       session_id = (case sid of
                       None \<Rightarrow> ''session_'' @ strftime_Ymd_HMS now_id
                     | Some i \<Rightarrow> if i = [] then ''session_'' @ strftime_Ymd_HMS now_id else i),
       user_preferences = [],
       conversation_context = [] \<rparr>"

text \<open>\<^verbatim>\<open>write_file\<close>\<close>

definition write_file ::
  "'v DeepAgentState \<Rightarrow> string \<Rightarrow> string \<Rightarrow> FileType \<Rightarrow> datetime \<Rightarrow> 'v DeepAgentState" where
  "write_file state filename content ftype now =
     (let file_item = \<lparr> file_name = filename, file_content = content, file_type = ftype,
                        file_created_at = now, file_updated_at = now,
                        file_size = length content, file_metadata = [] \<rparr>;
          operation = \<lparr> log_operation = op_write, log_filename = filename,
                        log_timestamp = now, log_size = Some (length content) \<rparr>
      in state\<lparr> files := AList.update filename file_item (files state),
                file_operations_log := file_operations_log state @ [operation],
                last_activity := now \<rparr>)"

text \<open>\<^verbatim>\<open>read_file\<close>: a file item is a dictionary of seven keys, hence true in
  \<^verbatim>\<open>if file_item\<close>.\<close>

definition read_file ::
  "'v DeepAgentState \<Rightarrow> string \<Rightarrow> datetime \<Rightarrow> string option \<times> 'v DeepAgentState" where
  "read_file state filename now =
     (case map_of (files state) filename of
        Some file_item \<Rightarrow>
          (Some (file_content file_item),
           state\<lparr> file_operations_log := file_operations_log state @
                    [\<lparr> log_operation = op_read, log_filename = filename,
                       log_timestamp = now, log_size = None \<rparr>] \<rparr>)
      | None \<Rightarrow> (None, state))"

text \<open>\<^verbatim>\<open>list_files\<close>: the directory argument is not used.\<close>

definition list_files :: "'v DeepAgentState \<Rightarrow> string option \<Rightarrow> string list \<times> 'v DeepAgentState" where
  "list_files state dir = (map fst (files state), state)"

text \<open>\<^verbatim>\<open>add_todo_item\<close>: \<open>now\<close> stamps the item, \<open>now_id\<close> is the second reading of the
  clock, formatted into the id.\<close>

definition add_todo_item ::
  "'v DeepAgentState \<Rightarrow> string \<Rightarrow> Priority \<Rightarrow> string option \<Rightarrow> string list option \<Rightarrow>
   datetime \<Rightarrow> datetime \<Rightarrow> 'v DeepAgentState" where
  "add_todo_item state task priority assigned_agent dependencies now now_id =
     (let deps = (case dependencies of None \<Rightarrow> [] | Some ds \<Rightarrow> ds);
          tid = ''todo_'' @ str_nat (length (todos state) + 1) @ ''_'' @ strftime_HMS now_id;
          new_todo = \<lparr> todo_id = tid, todo_task = task, todo_status = pending,
                       todo_created_at = now, todo_updated_at = now,
                       todo_priority = priority, todo_assigned_agent = assigned_agent,
                       todo_dependencies = deps, todo_metadata = [] \<rparr>
      in state\<lparr> todos := todos state @ [new_todo], last_activity := now \<rparr>)"

text \<open>\<^verbatim>\<open>d.update(other)\<close>\<close>

definition dict_update :: "('k, 'v) dict \<Rightarrow> ('k, 'v) dict \<Rightarrow> ('k, 'v) dict" where
  "dict_update d other = fold (\<lambda>(k, v). AList.update k v) other d"

text \<open>The loop of \<^verbatim>\<open>update_todo_status\<close>: the first item with the id is changed, then
  the loop breaks. An absent or empty \<^verbatim>\<open>metadata\<close> is false in \<^verbatim>\<open>if metadata\<close>.\<close>

fun update_todo_loop ::
  "'v TodoItem list \<Rightarrow> string \<Rightarrow> TodoStatus \<Rightarrow> (string, 'v) dict option \<Rightarrow> datetime \<Rightarrow>
   'v TodoItem list" where
  "update_todo_loop [] tid status metadata now = []"
| "update_todo_loop (todo # rest) tid status metadata now =
     (if todo_id todo = tid
      then todo\<lparr> todo_status := status, todo_updated_at := now,
                 todo_metadata :=
                   (case metadata of
                      None \<Rightarrow> todo_metadata todo
                    | Some m \<Rightarrow> if m = [] then todo_metadata todo
                               else dict_update (todo_metadata todo) m) \<rparr> # rest
      else todo # update_todo_loop rest tid status metadata now)"

definition update_todo_status ::
  "'v DeepAgentState \<Rightarrow> string \<Rightarrow> TodoStatus \<Rightarrow> (string, 'v) dict option \<Rightarrow> datetime \<Rightarrow>
   'v DeepAgentState" where
  "update_todo_status state tid status metadata now =
     state\<lparr> todos := update_todo_loop (todos state) tid status metadata now,
            last_activity := now \<rparr>"

text \<open>The cache key \<^verbatim>\<open>f"{symbol}_{data_type}"\<close>\<close>

definition cache_key :: "string \<Rightarrow> string \<Rightarrow> string" where
  "cache_key symbol data_type = symbol @ ''_'' @ data_type"

text \<open>\<^verbatim>\<open>cache_financial_data\<close>: the addition of the expiry can raise, before anything is
  stored.\<close>

definition cache_financial_data ::
  "'v DeepAgentState \<Rightarrow> string \<Rightarrow> string \<Rightarrow> (string, 'v) dict \<Rightarrow> int \<Rightarrow> datetime \<Rightarrow>
   py_error + 'v DeepAgentState" where
  "cache_financial_data state symbol data_type data expiry_minutes now =
     (case add_minutes now expiry_minutes of
        Inl e \<Rightarrow> Inl e
      | Inr expiry \<Rightarrow>
          Inr (state\<lparr> financial_cache :=
                        AList.update (cache_key symbol data_type)
                          \<lparr> cache_symbol = symbol, cache_data_type = data_type,
                            cache_data = data, cache_timestamp = now,
                            cache_expiry = expiry \<rparr>
                          (financial_cache state),
                      last_activity := now \<rparr>))"

text \<open>\<^verbatim>\<open>get_cached_financial_data\<close>: a cache item is a dictionary of five keys, hence
  true in \<^verbatim>\<open>if cache_item\<close>.\<close>

definition get_cached_financial_data ::
  "'v DeepAgentState \<Rightarrow> string \<Rightarrow> string \<Rightarrow> datetime \<Rightarrow>
   (string, 'v) dict option \<times> 'v DeepAgentState" where
  "get_cached_financial_data state symbol data_type now =
     (case map_of (financial_cache state) (cache_key symbol data_type) of
        Some cache_item \<Rightarrow>
          if now < cache_expiry cache_item then (Some (cache_data cache_item), state)
          else (None, state\<lparr> financial_cache :=
                               AList.delete (cache_key symbol data_type) (financial_cache state) \<rparr>)
      | None \<Rightarrow> (None, state))"

text \<open>\<^verbatim>\<open>register_sub_agent\<close>\<close>

definition register_sub_agent ::
  "'v DeepAgentState \<Rightarrow> string \<Rightarrow> string \<Rightarrow> string list \<Rightarrow> datetime \<Rightarrow> 'v DeepAgentState" where
  "register_sub_agent state name description tools now =
     state\<lparr> sub_agents :=
              AList.update name
                \<lparr> agent_name = name, agent_description = description, agent_tools = tools,
                  agent_status_of = idle, agent_created_at = now, agent_last_active = now,
                  agent_results = None \<rparr>
                (sub_agents state),
            last_activity := now \<rparr>"

text \<open>\<^verbatim>\<open>update_sub_agent_status\<close>: absent or empty \<^verbatim>\<open>results\<close> are false in
  \<^verbatim>\<open>if results\<close>.\<close>

definition update_sub_agent_status ::
  "'v DeepAgentState \<Rightarrow> string \<Rightarrow> SubAgentStatus \<Rightarrow> (string, 'v) dict option \<Rightarrow> datetime \<Rightarrow>
   'v DeepAgentState" where
  "update_sub_agent_status state name status results now =
     state\<lparr> sub_agents :=
              (case map_of (sub_agents state) name of
                 None \<Rightarrow> sub_agents state
               | Some info \<Rightarrow>
                   AList.update name
                     (info\<lparr> agent_status_of := status, agent_last_active := now,
                            agent_results :=
                              (case results of
                                 None \<Rightarrow> agent_results info
                               | Some r \<Rightarrow> if r = [] then agent_results info else Some r) \<rparr>)
                     (sub_agents state)),
            last_activity := now \<rparr>"

text \<open>\<^verbatim>\<open>validate_state\<close>: the three checks append to the list of issues in this order; no
  statement of the function writes to the state.\<close>

definition orphan_issue :: "string \<Rightarrow> string \<Rightarrow> string" where
  "orphan_issue tid dep_id = ''TODO '' @ tid @ '' has orphaned dependency: '' @ dep_id"

definition validate_state :: "'v DeepAgentState \<Rightarrow> string list \<times> 'v DeepAgentState" where
  "validate_state state =
     (let limit_issues =
            (if iteration_count state \<ge> max_iterations state
             then [''Iteration limit reached: '' @ str_int (iteration_count state) @ ''/'' @
                   str_int (max_iterations state)]
             else []);
          todo_ids = set (map todo_id (todos state));
          orphan_issues =
            concat (map (\<lambda>todo.
              concat (map (\<lambda>dep_id.
                if dep_id \<notin> todo_ids then [orphan_issue (todo_id todo) dep_id] else [])
                (todo_dependencies todo)))
              (todos state));
          agent_issues =
            concat (map (\<lambda>name.
              if name \<notin> set (map fst (sub_agents state))
              then [''Active sub-agent '' @ name @ '' not found in sub_agents registry'']
              else [])
              (active_sub_agents state))
      in (limit_issues @ orphan_issues @ agent_issues, state))"

subsection \<open>The delegation tool\<close>

text \<open>
  The module-level dictionary \<^verbatim>\<open>SUB_AGENTS\<close> maps a name to a compiled agent. To the
  tool an agent is its \<^verbatim>\<open>invoke\<close>: given the task description it raises (with the text
  of the exception) or returns a result, which is false (\<^verbatim>\<open>None\<close>, an empty
  dictionary), or has no \<^verbatim>\<open>"messages"\<close> key, or carries a list of messages; a message
  has a \<^verbatim>\<open>content\<close> attribute or not.
\<close>

datatype message = With_content string | Without_content

datatype invoke_result = Falsy | No_messages | Messages "message list"

datatype invoke_outcome = Raised string | Returned invoke_result

type_synonym sub_agent = "string \<Rightarrow> invoke_outcome"

text \<open>
  The tool returns one of four texts, kept here with the values the f-string inserts:
  \<^item> \<open>Not_found name known\<close>: sub-agent \<open>name\<close> not found, available agents \<open>known\<close>
    (\<^verbatim>\<open>list(SUB_AGENTS.keys())\<close>);
  \<^item> \<open>Results name content\<close>: \<^verbatim>\<open>Sub-agent 'name' results:\<close> and the content of the last
    message;
  \<^item> \<open>Delegated name\<close>: task delegated to \<open>name\<close>, check detailed output above;
  \<^item> \<open>Error_in name text\<close>: error in sub-agent \<open>name\<close>, with \<^verbatim>\<open>str(e)\<close>.
\<close>

datatype task_reply =
    Not_found string "string list"
  | Results string string
  | Delegated string
  | Error_in string string

text \<open>
  What the tool can reach: the dictionary of agents, the calls of \<^verbatim>\<open>invoke\<close> made so
  far (agent name and task description, the external effect of a delegation), and the
  session state, to which the tool holds no reference.
\<close>

record 'v world =
  SUB_AGENTS :: "(string, sub_agent) dict"
  invocations :: "(string \<times> string) list"
  session :: "'v DeepAgentState"

text \<open>\<^verbatim>\<open>result["messages"][-1]\<close> on an empty list raises \<^verbatim>\<open>IndexError\<close>, caught by the
  handler of the tool.\<close>

definition task :: "'v world \<Rightarrow> string \<Rightarrow> string \<Rightarrow> task_reply \<times> 'v world" where
  "task w name task_description =
     (case map_of (SUB_AGENTS w) name of
        None \<Rightarrow> (Not_found name (map fst (SUB_AGENTS w)), w)
      | Some sub_agent \<Rightarrow>
          (let w' = w\<lparr> invocations := invocations w @ [(name, task_description)] \<rparr>
           in case sub_agent task_description of
                Raised text \<Rightarrow> (Error_in name text, w')
              | Returned Falsy \<Rightarrow> (Delegated name, w')
              | Returned No_messages \<Rightarrow> (Delegated name, w')
              | Returned (Messages ms) \<Rightarrow>
                  (if ms = [] then (Error_in name ''list index out of range'', w')
                   else case last ms of
                          With_content content \<Rightarrow> (Results name content, w')
                        | Without_content \<Rightarrow> (Delegated name, w'))))"

subsection \<open>Reachable session states\<close>

text \<open>The states a session can be in: the initial state, and every state one of the
  operations above leaves behind when run on a reachable state.\<close>

inductive reachable :: "'v DeepAgentState \<Rightarrow> bool" where
  r_init: "reachable (create_initial_state user_message sid max_iter now_id now)"
| r_add_todo: "reachable s \<Longrightarrow> reachable (add_todo_item s descr priority agent deps now now_id)"
| r_update_todo: "reachable s \<Longrightarrow> reachable (update_todo_status s tid status metadata now)"
| r_write: "reachable s \<Longrightarrow> reachable (write_file s filename content ftype now)"
| r_read: "reachable s \<Longrightarrow> reachable (snd (read_file s filename now))"
| r_list: "reachable s \<Longrightarrow> reachable (snd (list_files s dir))"
| r_cache_put: "reachable s \<Longrightarrow> cache_financial_data s symbol data_type data ttl now = Inr s' \<Longrightarrow>
                reachable s'"
| r_cache_get: "reachable s \<Longrightarrow> reachable (snd (get_cached_financial_data s symbol data_type now))"
| r_register: "reachable s \<Longrightarrow> reachable (register_sub_agent s name description tools now)"
| r_mark: "reachable s \<Longrightarrow> reachable (update_sub_agent_status s name status results now)"
| r_validate: "reachable s \<Longrightarrow> reachable (snd (validate_state s))"

text \<open>The same states, each with the set of the pairs (symbol, data type) that have been
  put into the cache on the way to it.\<close>

inductive put_history :: "(string \<times> string) set \<Rightarrow> 'v DeepAgentState \<Rightarrow> bool" where
  h_init: "put_history {} (create_initial_state user_message sid max_iter now_id now)"
| h_cache_put: "put_history P s \<Longrightarrow> cache_financial_data s symbol data_type data ttl now = Inr s' \<Longrightarrow>
                put_history (insert (symbol, data_type) P) s'"
| h_cache_get: "put_history P s \<Longrightarrow>
                put_history P (snd (get_cached_financial_data s symbol data_type now))"
| h_add_todo: "put_history P s \<Longrightarrow> put_history P (add_todo_item s descr priority agent deps now now_id)"
| h_update_todo: "put_history P s \<Longrightarrow> put_history P (update_todo_status s tid status metadata now)"
| h_write: "put_history P s \<Longrightarrow> put_history P (write_file s filename content ftype now)"
| h_read: "put_history P s \<Longrightarrow> put_history P (snd (read_file s filename now))"
| h_list: "put_history P s \<Longrightarrow> put_history P (snd (list_files s dir))"
| h_register: "put_history P s \<Longrightarrow> put_history P (register_sub_agent s name description tools now)"
| h_mark: "put_history P s \<Longrightarrow> put_history P (update_sub_agent_status s name status results now)"
| h_validate: "put_history P s \<Longrightarrow> put_history P (snd (validate_state s))"

subsection \<open>Example values\<close>

text \<open>A fresh session, stored files, tasks, a cache entry, a registered specialist and a
  registry of agents, used to run the operations on concrete inputs.\<close>

definition demo_state :: "string DeepAgentState" where
  "demo_state = create_initial_state ''analyse AAPL'' (Some ''s1'') 50 0 1000000"

definition old_report :: "string FileSystemItem" where
  "old_report = \<lparr> file_name = ''report.md'', file_content = ''draft'', file_type = type_file,
                  file_created_at = 1, file_updated_at = 2, file_size = 5,
                  file_metadata = [(''author'', ''analyst'')] \<rparr>"

definition noted_state :: "string DeepAgentState" where
  "noted_state = write_file demo_state ''notes.md'' ''BUY'' type_file 5"

definition demo_todo :: "string TodoItem" where
  "demo_todo = \<lparr> todo_id = ''todo_1_093000'', todo_task = ''fetch prices'',
                 todo_status = pending, todo_created_at = 3, todo_updated_at = 3,
                 todo_priority = medium, todo_assigned_agent = None,
                 todo_dependencies = [], todo_metadata = [(''source'', ''yfinance'')] \<rparr>"

definition dependent_todo :: "string TodoItem" where
  "dependent_todo = \<lparr> todo_id = ''todo_2_093100'', todo_task = ''compare with peers'',
                      todo_status = pending, todo_created_at = 4, todo_updated_at = 4,
                      todo_priority = high, todo_assigned_agent = Some ''stock_analyst'',
                      todo_dependencies = [''todo_1_093000'', ''T99''], todo_metadata = [] \<rparr>"

definition planned_state :: "string DeepAgentState" where
  "planned_state = demo_state\<lparr> todos := [demo_todo, dependent_todo] \<rparr>"

text \<open>The clock reading 34200000000 is 09:30:00 on the first day.\<close>

definition first_todo_state :: "string DeepAgentState" where
  "first_todo_state = add_todo_item demo_state ''fetch prices'' medium None None 3 34200000000"

definition price_item :: "string FinancialDataCache" where
  "price_item = \<lparr> cache_symbol = ''AAPL_stock'', cache_data_type = ''price'',
                  cache_data = [(''p'', ''100'')], cache_timestamp = 7,
                  cache_expiry = 60000007 \<rparr>"

definition cached_state :: "string DeepAgentState" where
  "cached_state = demo_state\<lparr> financial_cache := [(''AAPL_stock_price'', price_item)],
                              last_activity := 7 \<rparr>"

definition demo_agent_info :: "string SubAgentInfo" where
  "demo_agent_info = \<lparr> agent_name = ''stock_analyst'', agent_description = ''equity analysis'',
                       agent_tools = [''get_stock_price''], agent_status_of = idle,
                       agent_created_at = 4, agent_last_active = 4, agent_results = None \<rparr>"

definition registered_state :: "string DeepAgentState" where
  "registered_state = demo_state\<lparr> todos := [demo_todo],
                                  sub_agents := [(''stock_analyst'', demo_agent_info)] \<rparr>"

definition buy_agent :: sub_agent where
  "buy_agent d = Returned (Messages [With_content ''BUY''])"

definition demo_world :: "string world" where
  "demo_world = \<lparr> SUB_AGENTS = [(''stock_analyst'', buy_agent)], invocations = [],
                  session = registered_state \<rparr>"

section \<open>Properties\<close>

subsection \<open>Auxiliary facts\<close>

lemma digit_char_inj: "a < 10 \<Longrightarrow> b < 10 \<Longrightarrow> digit_char a = digit_char b \<Longrightarrow> a = b"
proof -
  assume a: "a < 10" and b: "b < 10" and e: "digit_char a = digit_char b"
  from e have "(of_char (char_of (48 + a) :: char) :: nat) = of_char (char_of (48 + b) :: char)"
    by (simp add: digit_char_def)
  with a b show "a = b" by (simp add: of_char_of)
qed

lemma str_nat_not_Nil: "str_nat n \<noteq> []"
  by (subst str_nat.simps) simp

lemma str_nat_small: "n < 10 \<Longrightarrow> str_nat n = [digit_char n]"
  by (subst str_nat.simps) simp

lemma str_nat_big: "\<not> n < 10 \<Longrightarrow> str_nat n = str_nat (n div 10) @ [digit_char (n mod 10)]"
  by (subst str_nat.simps) simp

text \<open>The decimal text determines the number.\<close>

lemma str_nat_inj: "str_nat n = str_nat m \<Longrightarrow> n = m"
proof (induction n arbitrary: m rule: str_nat.induct)
  case (1 n)
  show ?case
  proof (cases "n < 10")
    case True
    note n = this
    show ?thesis
    proof (cases "m < 10")
      case True
      with n 1(2) show ?thesis by (simp add: str_nat_small digit_char_inj)
    next
      case False
      with n 1(2) show ?thesis
        using str_nat_not_Nil[of "m div 10"] by (simp add: str_nat_small str_nat_big)
    qed
  next
    case False
    note n = this
    show ?thesis
    proof (cases "m < 10")
      case True
      with n 1(2) show ?thesis
        using str_nat_not_Nil[of "n div 10"] by (simp add: str_nat_small str_nat_big)
    next
      case False
      with n 1(2) have e: "str_nat (n div 10) = str_nat (m div 10)"
        and d: "digit_char (n mod 10) = digit_char (m mod 10)"
        by (simp_all add: str_nat_big)
      from 1(1)[OF n e] have "n div 10 = m div 10" .
      moreover from d have "n mod 10 = m mod 10" by (simp add: digit_char_inj)
      ultimately show ?thesis by (metis div_mult_mod_eq)
    qed
  qed
qed

lemma length_strftime_HMS: "length (strftime_HMS t) = 6"
  by (simp add: strftime_HMS_def pad2_def Let_def)

text \<open>The id of a task determines the number it was built from, whatever the clock said.\<close>

lemma todo_id_text_inj:
  "''todo_'' @ str_nat n @ ''_'' @ strftime_HMS t = ''todo_'' @ str_nat m @ ''_'' @ strftime_HMS u
   \<Longrightarrow> n = m"
proof -
  assume "''todo_'' @ str_nat n @ ''_'' @ strftime_HMS t
            = ''todo_'' @ str_nat m @ ''_'' @ strftime_HMS u"
  then have "str_nat n @ (''_'' @ strftime_HMS t) = str_nat m @ (''_'' @ strftime_HMS u)"
    by simp
  then have "str_nat n = str_nat m"
    by (simp add: append_eq_append_conv length_strftime_HMS)
  then show ?thesis by (rule str_nat_inj)
qed

text \<open>Facts that evaluate the text of small numbers and of clock readings.\<close>

lemmas eval_text = str_nat_small strftime_HMS_def second_of_day_def pad2_def digit_char_def
  char_of_def bit_Suc_0_iff Let_def

text \<open>\<^verbatim>\<open>d.update(p)\<close> is the shallow merge in which the patch wins; a dictionary \<open>p\<close>
  has one binding per key.\<close>

lemma map_of_dict_update:
  "distinct (map fst p) \<Longrightarrow> map_of (dict_update d p) = map_of d ++ map_of p"
proof (induction p arbitrary: d)
  case Nil
  then show ?case by (simp add: dict_update_def)
next
  case (Cons kv p)
  obtain k v where kv: "kv = (k, v)" by (cases kv)
  from Cons.prems kv have k: "map_of p k = None" and dp: "distinct (map fst p)"
    by (auto simp: map_of_eq_None_iff)
  have step: "dict_update d (kv # p) = dict_update (AList.update k v d) p"
    by (simp add: dict_update_def kv)
  have upd: "map_of (AList.update k v d) = (map_of d)(k \<mapsto> v)"
    by (rule update_conv')
  have "((map_of d)(k \<mapsto> v) ++ map_of p) x = (map_of d ++ map_of (kv # p)) x" for x
    using k by (cases "x = k") (simp_all add: kv map_add_def split: option.splits)
  then have eq: "(map_of d)(k \<mapsto> v) ++ map_of p = map_of d ++ map_of (kv # p)"
    by (rule ext)
  have "map_of (dict_update d (kv # p)) = map_of (dict_update (AList.update k v d) p)"
    by (simp only: step)
  also have "\<dots> = map_of (AList.update k v d) ++ map_of p"
    by (rule Cons.IH[OF dp])
  also have "\<dots> = (map_of d)(k \<mapsto> v) ++ map_of p"
    by (simp only: upd)
  also have "\<dots> = map_of d ++ map_of (kv # p)"
    by (rule eq)
  finally show ?case .
qed

lemma update_todo_loop_absent:
  "tid \<notin> todo_id ` set ts \<Longrightarrow> update_todo_loop ts tid st md now = ts"
  by (induction ts) auto

lemma update_todo_loop_ids:
  "map todo_id (update_todo_loop ts tid st md now) = map todo_id ts"
  by (induction ts) auto

text \<open>The loop rewrites the first item that has the id, and only that position.\<close>

lemma update_todo_loop_present:
  "tid \<in> todo_id ` set ts \<Longrightarrow>
   \<exists>i<length ts. todo_id (ts ! i) = tid \<and> (\<forall>j<i. todo_id (ts ! j) \<noteq> tid) \<and>
     update_todo_loop ts tid st md now =
       ts[i := (ts ! i)\<lparr> todo_status := st, todo_updated_at := now,
                          todo_metadata :=
                            (case md of None \<Rightarrow> todo_metadata (ts ! i)
                             | Some m \<Rightarrow> if m = [] then todo_metadata (ts ! i)
                                         else dict_update (todo_metadata (ts ! i)) m) \<rparr>]"
proof (induction ts)
  case Nil
  then show ?case by simp
next
  case (Cons a ts)
  show ?case
  proof (cases "todo_id a = tid")
    case True
    then show ?thesis by (intro exI[of _ 0]) (simp split: option.splits)
  next
    case False
    with Cons.prems have "tid \<in> todo_id ` set ts" by auto
    from Cons.IH[OF this] obtain i where i: "i < length ts" "todo_id (ts ! i) = tid"
      "\<forall>j<i. todo_id (ts ! j) \<noteq> tid"
      "update_todo_loop ts tid st md now =
       ts[i := (ts ! i)\<lparr> todo_status := st, todo_updated_at := now,
                          todo_metadata :=
                            (case md of None \<Rightarrow> todo_metadata (ts ! i)
                             | Some m \<Rightarrow> if m = [] then todo_metadata (ts ! i)
                                         else dict_update (todo_metadata (ts ! i)) m) \<rparr>]"
      by blast
    have "\<forall>j<Suc i. todo_id ((a # ts) ! j) \<noteq> tid"
      using False i(3) by (auto simp: less_Suc_eq_0_disj)
    with i False show ?thesis by (intro exI[of _ "Suc i"]) (simp split: option.splits)
  qed
qed

text \<open>In a reachable state the task at position \<open>i\<close> carries the number \<open>i + 1\<close> in its
  id: tasks are appended, never removed or reordered, and no operation rewrites an id.\<close>

lemma reachable_ids:
  "reachable s \<Longrightarrow>
   \<forall>i<length (todos s). \<exists>t. todo_id (todos s ! i) = ''todo_'' @ str_nat (Suc i) @ ''_'' @ strftime_HMS t"
proof (induction rule: reachable.induct)
  case (r_init user_message sid max_iter now_id now)
  then show ?case by (simp add: create_initial_state_def)
next
  case (r_add_todo s descr priority agent deps now now_id)
  then show ?case
    by (auto simp: add_todo_item_def Let_def nth_append less_Suc_eq)
next
  case (r_update_todo s tid status metadata now)
  have "todo_id (update_todo_loop (todos s) tid status metadata now ! i) = todo_id (todos s ! i)"
    if "i < length (todos s)" for i
    using that update_todo_loop_ids[of "todos s" tid status metadata now]
    by (metis length_map nth_map)
  moreover have "length (update_todo_loop (todos s) tid status metadata now) = length (todos s)"
    using update_todo_loop_ids[of "todos s" tid status metadata now] by (metis length_map)
  ultimately show ?case using r_update_todo.IH by (simp add: update_todo_status_def)
next
  case (r_write s filename content ftype now)
  then show ?case by (simp add: write_file_def Let_def)
next
  case (r_read s filename now)
  then show ?case by (simp add: read_file_def split: option.splits)
next
  case (r_list s dir)
  then show ?case by (simp add: list_files_def)
next
  case (r_cache_put s symbol data_type data ttl now s')
  from r_cache_put.hyps(2) have "todos s' = todos s"
    by (auto simp: cache_financial_data_def split: sum.splits)
  with r_cache_put.IH show ?case by simp
next
  case (r_cache_get s symbol data_type now)
  then show ?case by (simp add: get_cached_financial_data_def split: option.splits)
next
  case (r_register s name description tools now)
  then show ?case by (simp add: register_sub_agent_def)
next
  case (r_mark s name status results now)
  then show ?case by (simp add: update_sub_agent_status_def)
next
  case (r_validate s)
  then show ?case by (simp add: validate_state_def Let_def)
qed

lemma cached_state_put:
  "cache_financial_data demo_state ''AAPL_stock'' ''price'' [(''p'', ''100'')] 1 7 = Inr cached_state"
  by (simp add: cache_financial_data_def add_minutes_def datetime_max_def cache_key_def
      cached_state_def price_item_def demo_state_def create_initial_state_def)

lemma first_todo_state_todos:
  "todos first_todo_state =
     [\<lparr> todo_id = ''todo_1_093000'', todo_task = ''fetch prices'', todo_status = pending,
        todo_created_at = 3, todo_updated_at = 3, todo_priority = medium,
        todo_assigned_agent = None, todo_dependencies = [], todo_metadata = [] \<rparr>]"
  by (simp add: first_todo_state_def add_todo_item_def demo_state_def create_initial_state_def
      eval_text)

subsection \<open>Virtual file store\<close>

text \<open>
  C4. For every state, name and content: a write of the content under the name followed
  at once by a read of the name returns exactly the content; the size of the stored
  entry is the length of the content, and the record the write appends to the operation
  log carries the same size.
\<close>

theorem write_then_read:
  "fst (read_file (write_file s name content ftype now) name now') = Some content \<and>
   map_option file_size (map_of (files (write_file s name content ftype now)) name)
     = Some (length content) \<and>
   last (file_operations_log (write_file s name content ftype now))
     = \<lparr> log_operation = op_write, log_filename = name, log_timestamp = now,
         log_size = Some (length content) \<rparr>"
  by (simp add: read_file_def write_file_def update_conv')

theorem write_then_read_witness:
  "fst (read_file (write_file demo_state ''notes.md'' ''BUY'' type_file 5) ''notes.md'' 6)
     = Some ''BUY'' \<and>
   map_option file_size
     (map_of (files (write_file demo_state ''notes.md'' ''BUY'' type_file 5)) ''notes.md'') = Some 3"
proof -
  have "length ''BUY'' = 3" by simp
  with write_then_read [of demo_state "''notes.md''" "''BUY''" type_file 5 6]
  show ?thesis by (simp only:)
qed

text \<open>
  C10. When a file of the name already exists, a write replaces the whole entry: the
  new entry is created at the time of this write (the earlier creation time is gone),
  its metadata is empty (the earlier metadata is gone), and content, size and update
  time are those of this write.
\<close>

theorem write_file_replaces_entry:
  assumes "map_of (files s) name = Some old"
  shows "map_of (files (write_file s name content ftype now)) name =
           Some \<lparr> file_name = name, file_content = content, file_type = ftype,
                  file_created_at = now, file_updated_at = now,
                  file_size = length content, file_metadata = [] \<rparr>"
  by (simp add: write_file_def update_conv')

theorem write_file_replaces_entry_witness:
  "map_of (files (demo_state\<lparr> files := [(''report.md'', old_report)] \<rparr>)) ''report.md''
     = Some old_report \<and>
   file_created_at old_report = 1 \<and> file_metadata old_report \<noteq> [] \<and>
   map_of (files (write_file (demo_state\<lparr> files := [(''report.md'', old_report)] \<rparr>)
                    ''report.md'' ''final'' type_file 9)) ''report.md'' =
     Some \<lparr> file_name = ''report.md'', file_content = ''final'', file_type = type_file,
            file_created_at = 9, file_updated_at = 9, file_size = 5, file_metadata = [] \<rparr>"
proof -
  have h: "map_of (files (demo_state\<lparr> files := [(''report.md'', old_report)] \<rparr>)) ''report.md''
             = Some old_report" by simp
  have l: "length ''final'' = 5" by simp
  from write_file_replaces_entry [OF h, of "''final''" type_file 9] l h
  show ?thesis by (simp add: old_report_def)
qed

subsection \<open>Last activity\<close>

text \<open>
  C2, as the code has it. The claim that every operation that changes the state refreshes
  the last-activity time fails for the two operations that return a value instead of the
  state: a successful read appends to the operation log, and a cache lookup that finds an
  expired entry removes it, and both leave the last-activity time as it was.
\<close>

theorem last_activity_refresh_counterexample:
  "file_operations_log (snd (read_file noted_state ''notes.md'' 9))
     \<noteq> file_operations_log noted_state \<and>
   last_activity (snd (read_file noted_state ''notes.md'' 9)) = 5 \<and>
   last_activity (snd (read_file noted_state ''notes.md'' 9)) \<noteq> 9 \<and>
   financial_cache (snd (get_cached_financial_data cached_state ''AAPL_stock'' ''price'' 60000007))
     \<noteq> financial_cache cached_state \<and>
   last_activity (snd (get_cached_financial_data cached_state ''AAPL_stock'' ''price'' 60000007)) = 7 \<and>
   last_activity (snd (get_cached_financial_data cached_state ''AAPL_stock'' ''price'' 60000007))
     \<noteq> 60000007"
  by (simp add: noted_state_def read_file_def write_file_def Let_def
      demo_state_def create_initial_state_def
      get_cached_financial_data_def cached_state_def cache_key_def price_item_def)

text \<open>
  C2, amended. Each of the six operations that return the state (adding a task, updating
  a task, writing a file, storing a cache entry, registering a specialist, marking a
  specialist) sets the last-activity time to the clock reading of the call; reading a
  file and looking up the cache leave the last-activity time unchanged, whatever else
  they change.
\<close>

theorem last_activity_refresh:
  "last_activity (add_todo_item s descr p a deps now now_id) = now \<and>
   last_activity (update_todo_status s tid st md now) = now \<and>
   last_activity (write_file s name c ft now) = now \<and>
   (\<forall>s'. cache_financial_data s symbol data_type data ttl now = Inr s' \<longrightarrow> last_activity s' = now) \<and>
   last_activity (register_sub_agent s name d tools now) = now \<and>
   last_activity (update_sub_agent_status s name ast r now) = now \<and>
   last_activity (snd (read_file s name now)) = last_activity s \<and>
   last_activity (snd (get_cached_financial_data s symbol data_type now)) = last_activity s"
proof (intro conjI allI impI)
  show "last_activity (add_todo_item s descr p a deps now now_id) = now"
    by (simp add: add_todo_item_def Let_def)
  show "last_activity (update_todo_status s tid st md now) = now"
    by (simp add: update_todo_status_def)
  show "last_activity (write_file s name c ft now) = now"
    by (simp add: write_file_def Let_def)
  show "last_activity s' = now" if "cache_financial_data s symbol data_type data ttl now = Inr s'" for s'
    using that by (auto simp: cache_financial_data_def split: sum.splits)
  show "last_activity (register_sub_agent s name d tools now) = now"
    by (simp add: register_sub_agent_def)
  show "last_activity (update_sub_agent_status s name ast r now) = now"
    by (simp add: update_sub_agent_status_def)
  show "last_activity (snd (read_file s name now)) = last_activity s"
    by (simp add: read_file_def split: option.splits)
  show "last_activity (snd (get_cached_financial_data s symbol data_type now)) = last_activity s"
    by (simp add: get_cached_financial_data_def split: option.splits)
qed

theorem last_activity_refresh_witness:
  "cache_financial_data demo_state ''AAPL_stock'' ''price'' [(''p'', ''100'')] 1 7 = Inr cached_state \<and>
   last_activity cached_state = 7 \<and>
   last_activity (write_file demo_state ''notes.md'' ''BUY'' type_file 7) = 7 \<and>
   last_activity (snd (read_file demo_state ''notes.md'' 7)) = last_activity demo_state"
  using last_activity_refresh [where s = demo_state and symbol = "''AAPL_stock''"
      and data_type = "''price''" and data = "[(''p'', ''100'')]" and ttl = 1 and now = 7
      and name = "''notes.md''" and c = "''BUY''" and ft = type_file]
    cached_state_put
  by simp

subsection \<open>Expiring cache\<close>

text \<open>
  What holds of the cache. After a put with a positive time to live (one that returns,
  the expiry being a date the clock can hold): a lookup of the same symbol and data type
  at the time of the put, or at any time strictly before the expiry, returns the stored
  payload and changes nothing; a lookup at or after the expiry returns absent and leaves
  a state without the entry, in which every further lookup returns absent and changes
  nothing.
\<close>

lemma cache_put_get:
  assumes put: "cache_financial_data s symbol data_type data ttl now = Inr s1"
    and ttl: "0 < ttl"
  shows "get_cached_financial_data s1 symbol data_type now = (Some data, s1) \<and>
         (\<forall>t. t < now + ttl * 60000000 \<longrightarrow>
            get_cached_financial_data s1 symbol data_type t = (Some data, s1)) \<and>
         (\<forall>t. now + ttl * 60000000 \<le> t \<longrightarrow>
            (\<exists>s2. get_cached_financial_data s1 symbol data_type t = (None, s2) \<and>
                  map_of (financial_cache s2) (cache_key symbol data_type) = None \<and>
                  (\<forall>t'. get_cached_financial_data s2 symbol data_type t' = (None, s2))))"
proof -
  let ?k = "cache_key symbol data_type"
  let ?item = "\<lparr> cache_symbol = symbol, cache_data_type = data_type, cache_data = data,
                  cache_timestamp = now, cache_expiry = now + ttl * 60000000 \<rparr>"
  from put have s1: "s1 = s\<lparr> financial_cache := AList.update ?k ?item (financial_cache s),
                              last_activity := now \<rparr>"
    by (auto simp: cache_financial_data_def add_minutes_def Let_def split: if_splits)
  then have look: "map_of (financial_cache s1) ?k = Some ?item"
    by (simp add: update_conv')
  have before: "get_cached_financial_data s1 symbol data_type t = (Some data, s1)"
    if "t < now + ttl * 60000000" for t
    using that look by (simp add: get_cached_financial_data_def)
  have after: "\<exists>s2. get_cached_financial_data s1 symbol data_type t = (None, s2) \<and>
                  map_of (financial_cache s2) ?k = None \<and>
                  (\<forall>t'. get_cached_financial_data s2 symbol data_type t' = (None, s2))"
    if "now + ttl * 60000000 \<le> t" for t
  proof -
    let ?s2 = "s1\<lparr> financial_cache := AList.delete ?k (financial_cache s1) \<rparr>"
    have 1: "get_cached_financial_data s1 symbol data_type t = (None, ?s2)"
      using that look by (simp add: get_cached_financial_data_def)
    have 2: "map_of (financial_cache ?s2) ?k = None"
      by (simp add: delete_conv')
    from 2 have 3: "get_cached_financial_data ?s2 symbol data_type t' = (None, ?s2)" for t'
      by (simp add: get_cached_financial_data_def)
    from 1 2 3 show ?thesis by blast
  qed
  from ttl have "now < now + ttl * 60000000" by simp
  with before have "get_cached_financial_data s1 symbol data_type now = (Some data, s1)" by blast
  with before after show ?thesis by blast
qed

lemma cache_put_get_example:
  "cache_financial_data demo_state ''AAPL_stock'' ''price'' [(''p'', ''100'')] 1 7 = Inr cached_state \<and>
   get_cached_financial_data cached_state ''AAPL_stock'' ''price'' 7
     = (Some [(''p'', ''100'')], cached_state) \<and>
   get_cached_financial_data cached_state ''AAPL_stock'' ''price'' 60000006
     = (Some [(''p'', ''100'')], cached_state) \<and>
   fst (get_cached_financial_data cached_state ''AAPL_stock'' ''price'' 60000007) = None"
proof -
  have ttl: "(0::int) < 1" by simp
  from cache_put_get [OF cached_state_put ttl]
  show ?thesis using cached_state_put by fastforce
qed

text \<open>A put writes under its own key text only: every other key of the cache keeps its
  entry, or stays absent.\<close>

lemma cache_put_frame:
  assumes "cache_financial_data s symbol data_type data ttl now = Inr s1"
    and "k \<noteq> cache_key symbol data_type"
  shows "map_of (financial_cache s1) k = map_of (financial_cache s) k"
  using assms
  by (auto simp: cache_financial_data_def update_conv' split: sum.splits)

text \<open>Every key of the cache is the key text of a pair that has been put.\<close>

lemma put_history_keys:
  "put_history P s \<Longrightarrow>
   fst ` set (financial_cache s) \<subseteq> (\<lambda>(symbol, data_type). cache_key symbol data_type) ` P"
proof (induction rule: put_history.induct)
  case (h_init user_message sid max_iter now_id now)
  then show ?case by (simp add: create_initial_state_def)
next
  case (h_cache_put P s symbol data_type data ttl now s')
  from h_cache_put.hyps(2) obtain item where
    "financial_cache s' = AList.update (cache_key symbol data_type) item (financial_cache s)"
    by (auto simp: cache_financial_data_def split: sum.splits)
  then have "fst ` set (financial_cache s')
               = {cache_key symbol data_type} \<union> fst ` set (financial_cache s)"
    by (simp add: dom_update)
  with h_cache_put.IH show ?case by auto
next
  case (h_cache_get P s symbol data_type now)
  have "fst ` set (financial_cache (snd (get_cached_financial_data s symbol data_type now)))
          \<subseteq> fst ` set (financial_cache s)"
    using dom_delete_subset [of "cache_key symbol data_type" "financial_cache s"]
    by (simp add: get_cached_financial_data_def split: option.splits)
  with h_cache_get.IH show ?case by blast
next
  case (h_add_todo P s descr priority agent deps now now_id)
  then show ?case by (simp add: add_todo_item_def Let_def)
next
  case (h_update_todo P s tid status metadata now)
  then show ?case by (simp add: update_todo_status_def)
next
  case (h_write P s filename content ftype now)
  then show ?case by (simp add: write_file_def Let_def)
next
  case (h_read P s filename now)
  then show ?case by (simp add: read_file_def split: option.splits)
next
  case (h_list P s dir)
  then show ?case by (simp add: list_files_def)
next
  case (h_register P s name description tools now)
  then show ?case by (simp add: register_sub_agent_def)
next
  case (h_mark P s name status results now)
  then show ?case by (simp add: update_sub_agent_status_def)
next
  case (h_validate P s)
  then show ?case by (simp add: validate_state_def Let_def)
qed

text \<open>In a session, a lookup of a pair whose key text is the key text of no pair put so
  far returns absent and changes nothing. For pairs whose key text determines them this
  is the lookup of a key never put.\<close>

lemma cache_get_text_never_put:
  assumes "put_history P s"
    and "\<forall>(symbol', data_type') \<in> P. cache_key symbol' data_type' \<noteq> cache_key symbol data_type"
  shows "get_cached_financial_data s symbol data_type t = (None, s)"
proof -
  from put_history_keys[OF assms(1)] assms(2)
  have "cache_key symbol data_type \<notin> fst ` set (financial_cache s)" by fastforce
  then have "map_of (financial_cache s) (cache_key symbol data_type) = None"
    by (simp add: map_of_eq_None_iff)
  then show ?thesis by (simp add: get_cached_financial_data_def)
qed

lemma cached_state_history: "put_history {(''AAPL_stock'', ''price'')} cached_state"
  using put_history.h_cache_put [OF put_history.h_init cached_state_put [unfolded demo_state_def]]
  by simp

lemma cache_get_text_never_put_example:
  "get_cached_financial_data cached_state ''MSFT'' ''price'' 8 = (None, cached_state)"
  using cache_get_text_never_put [OF cached_state_history, of "''MSFT''" "''price''" 8]
  by (simp add: cache_key_def)

text \<open>
  C3. The code departs from the claim where two pairs share a key text. The cache is
  keyed by the text \<^verbatim>\<open>symbol_data_type\<close>; an entry stores its symbol and its data type,
  and the lookup compares neither. The session starts with an empty cache and puts
  (\<^verbatim>\<open>AAPL_stock\<close>, \<^verbatim>\<open>price\<close>) once; the pair (\<^verbatim>\<open>AAPL\<close>, \<^verbatim>\<open>stock_price\<close>) is
  never put, has the same key text, and a lookup of it before the expiry returns the
  payload of the other pair, where the claim says absent.
\<close>

theorem cache_get_colliding_key:
  "financial_cache demo_state = [] \<and>
   cache_financial_data demo_state ''AAPL_stock'' ''price'' [(''p'', ''100'')] 1 7 = Inr cached_state \<and>
   (''AAPL'', ''stock_price'') \<noteq> (''AAPL_stock'', ''price'') \<and>
   cache_key ''AAPL'' ''stock_price'' = cache_key ''AAPL_stock'' ''price'' \<and>
   get_cached_financial_data cached_state ''AAPL'' ''stock_price'' 8
     = (Some [(''p'', ''100'')], cached_state) \<and>
   cache_symbol price_item = ''AAPL_stock'' \<and> cache_data_type price_item = ''price''"
  using cached_state_put
  by (simp add: demo_state_def create_initial_state_def get_cached_financial_data_def
      cached_state_def cache_key_def price_item_def)

subsection \<open>Task backlog\<close>

text \<open>
  C6. When the backlog holds a task \<open>T\<close> one of whose dependency ids is the id of no task
  of the backlog, the validation returns, among its issues, the text that names the id of
  \<open>T\<close> and the dangling dependency id; and the validation leaves the state as it was.
\<close>

theorem validate_reports_orphan:
  assumes "T \<in> set (todos s)" and "d \<in> set (todo_dependencies T)"
    and "d \<notin> todo_id ` set (todos s)"
  shows "''TODO '' @ todo_id T @ '' has orphaned dependency: '' @ d \<in> set (fst (validate_state s)) \<and>
         snd (validate_state s) = s"
  using assms by (auto simp: validate_state_def Let_def orphan_issue_def)

theorem validate_reports_orphan_witness:
  "dependent_todo \<in> set (todos planned_state) \<and>
   ''T99'' \<in> set (todo_dependencies dependent_todo) \<and>
   ''T99'' \<notin> todo_id ` set (todos planned_state) \<and>
   ''TODO todo_2_093100 has orphaned dependency: T99'' \<in> set (fst (validate_state planned_state)) \<and>
   snd (validate_state planned_state) = planned_state"
proof -
  have a: "dependent_todo \<in> set (todos planned_state)" by (simp add: planned_state_def)
  have b: "''T99'' \<in> set (todo_dependencies dependent_todo)" by (simp add: dependent_todo_def)
  have c: "''T99'' \<notin> todo_id ` set (todos planned_state)"
    by (simp add: planned_state_def dependent_todo_def demo_todo_def)
  have d: "todo_id dependent_todo = ''todo_2_093100''" by (simp add: dependent_todo_def)
  from validate_reports_orphan [OF a b c] a b c d show ?thesis by simp
qed

text \<open>
  C7. A status update addressed to a task id that no task of the backlog has leaves the
  backlog exactly as it was, and a mark addressed to a specialist name that is not in the
  registry leaves the registry exactly as it was. Both operations are total: they return
  a state and raise nothing.
\<close>

theorem unknown_target_noop:
  "(tid \<notin> todo_id ` set (todos s) \<longrightarrow>
      todos (update_todo_status s tid st md now) = todos s) \<and>
   (name \<notin> fst ` set (sub_agents s) \<longrightarrow>
      sub_agents (update_sub_agent_status s name ast res now) = sub_agents s)"
proof (intro conjI impI)
  assume "tid \<notin> todo_id ` set (todos s)"
  then show "todos (update_todo_status s tid st md now) = todos s"
    by (simp add: update_todo_status_def update_todo_loop_absent)
next
  assume "name \<notin> fst ` set (sub_agents s)"
  then have "map_of (sub_agents s) name = None"
    by (simp add: map_of_eq_None_iff)
  then show "sub_agents (update_sub_agent_status s name ast res now) = sub_agents s"
    by (simp add: update_sub_agent_status_def)
qed

theorem unknown_target_noop_witness:
  "''todo_7_101500'' \<notin> todo_id ` set (todos registered_state) \<and>
   todos (update_todo_status registered_state ''todo_7_101500''
            completed (Some [(''note'', ''done'')]) 8) = [demo_todo] \<and>
   ''risk_assessor'' \<notin> fst ` set (sub_agents registered_state) \<and>
   sub_agents (update_sub_agent_status registered_state ''risk_assessor''
                 agent_completed (Some [(''rec'', ''BUY'')]) 8)
     = [(''stock_analyst'', demo_agent_info)]"
proof -
  have a: "''todo_7_101500'' \<notin> todo_id ` set (todos registered_state)"
    by (simp add: registered_state_def demo_todo_def)
  have b: "''risk_assessor'' \<notin> fst ` set (sub_agents registered_state)"
    by (simp add: registered_state_def)
  have c: "todos registered_state = [demo_todo]"
    "sub_agents registered_state = [(''stock_analyst'', demo_agent_info)]"
    by (simp_all add: registered_state_def)
  from unknown_target_noop [where tid = "''todo_7_101500''" and name = "''risk_assessor''"
      and s = registered_state and st = completed and md = "Some [(''note'', ''done'')]"
      and now = 8 and ast = agent_completed and res = "Some [(''rec'', ''BUY'')]"] a b c
  show ?thesis by (simp only: simp_thms)
qed

text \<open>
  C8. When the backlog holds a task with id \<open>X\<close>, a status update addressed to \<open>X\<close>
  rewrites one position of the backlog, that of the first task with the id, and there it
  changes the status, the update time and the metadata only: id, description,
  dependencies and the other fields stay, and so does every other task. The new metadata
  is the old one when no patch is given, and the shallow merge of the old one and the
  patch, the patch winning on a common key, when a patch (a dictionary, one binding per
  key) is given.
\<close>

theorem update_todo_status_frame:
  assumes "X \<in> todo_id ` set (todos s)"
  shows "\<exists>i<length (todos s). \<exists>m.
           todo_id (todos s ! i) = X \<and> (\<forall>j<i. todo_id (todos s ! j) \<noteq> X) \<and>
           todos (update_todo_status s X st md now) =
             (todos s)[i := (todos s ! i)\<lparr> todo_status := st, todo_updated_at := now,
                                            todo_metadata := m \<rparr>] \<and>
           (md = None \<longrightarrow> m = todo_metadata (todos s ! i)) \<and>
           (\<forall>patch. md = Some patch \<and> distinct (map fst patch) \<longrightarrow>
              map_of m = map_of (todo_metadata (todos s ! i)) ++ map_of patch)"
proof -
  from update_todo_loop_present[OF assms, of st md now]
  obtain i where i: "i < length (todos s)" "todo_id (todos s ! i) = X"
    "\<forall>j<i. todo_id (todos s ! j) \<noteq> X"
    "update_todo_loop (todos s) X st md now =
       (todos s)[i := (todos s ! i)\<lparr> todo_status := st, todo_updated_at := now,
          todo_metadata :=
            (case md of None \<Rightarrow> todo_metadata (todos s ! i)
             | Some m \<Rightarrow> if m = [] then todo_metadata (todos s ! i)
                         else dict_update (todo_metadata (todos s ! i)) m) \<rparr>]"
    by blast
  let ?m = "case md of None \<Rightarrow> todo_metadata (todos s ! i)
             | Some m \<Rightarrow> if m = [] then todo_metadata (todos s ! i)
                         else dict_update (todo_metadata (todos s ! i)) m"
  have a: "md = None \<longrightarrow> ?m = todo_metadata (todos s ! i)" by simp
  have b: "\<forall>patch. md = Some patch \<and> distinct (map fst patch) \<longrightarrow>
              map_of ?m = map_of (todo_metadata (todos s ! i)) ++ map_of patch"
    by (auto simp: map_of_dict_update)
  from i(4) have c: "todos (update_todo_status s X st md now) =
             (todos s)[i := (todos s ! i)\<lparr> todo_status := st, todo_updated_at := now,
                                            todo_metadata := ?m \<rparr>]"
    by (simp add: update_todo_status_def)
  from i(1) i(2) i(3) a b c show ?thesis by blast
qed

theorem update_todo_status_frame_witness:
  "''todo_1_093000'' \<in> todo_id ` set (todos planned_state) \<and>
   todos (update_todo_status planned_state ''todo_1_093000'' completed
            (Some [(''source'', ''bloomberg''), (''rows'', ''250'')]) 8) =
     [demo_todo\<lparr> todo_status := completed, todo_updated_at := 8,
                 todo_metadata := [(''source'', ''bloomberg''), (''rows'', ''250'')] \<rparr>,
      dependent_todo] \<and>
   (\<exists>i<length (todos planned_state). \<exists>m.
      todo_id (todos planned_state ! i) = ''todo_1_093000'' \<and>
      todos (update_todo_status planned_state ''todo_1_093000'' completed
            (Some [(''source'', ''bloomberg''), (''rows'', ''250'')]) 8) =
        (todos planned_state)[i := (todos planned_state ! i)\<lparr> todo_status := completed,
           todo_updated_at := 8, todo_metadata := m \<rparr>])"
proof -
  have a: "''todo_1_093000'' \<in> todo_id ` set (todos planned_state)"
    by (simp add: planned_state_def demo_todo_def)
  have b: "todos (update_todo_status planned_state ''todo_1_093000'' completed
            (Some [(''source'', ''bloomberg''), (''rows'', ''250'')]) 8) =
     [demo_todo\<lparr> todo_status := completed, todo_updated_at := 8,
                 todo_metadata := [(''source'', ''bloomberg''), (''rows'', ''250'')] \<rparr>,
      dependent_todo]"
    by (simp add: update_todo_status_def planned_state_def demo_todo_def dict_update_def)
  from update_todo_status_frame [OF a, of completed
      "Some [(''source'', ''bloomberg''), (''rows'', ''250'')]" 8] a b
  show ?thesis by blast
qed

text \<open>
  C9. In every state a session can reach by its operations, adding a task appends one
  task whose id is built from the size of the backlog plus one and the time of day, and
  this id differs from the id of every task already in the backlog.
\<close>

theorem add_todo_item_fresh_id:
  assumes "reachable s"
  shows "\<exists>new. todos (add_todo_item s descr priority agent deps now now_id) = todos s @ [new] \<and>
           todo_id new = ''todo_'' @ str_nat (length (todos s) + 1) @ ''_'' @ strftime_HMS now_id \<and>
           todo_id new \<notin> todo_id ` set (todos s)"
proof -
  let ?new_id = "''todo_'' @ str_nat (length (todos s) + 1) @ ''_'' @ strftime_HMS now_id"
  have "?new_id \<notin> todo_id ` set (todos s)"
  proof
    assume "?new_id \<in> todo_id ` set (todos s)"
    then obtain i where i: "i < length (todos s)" "todo_id (todos s ! i) = ?new_id"
      by (auto simp: in_set_conv_nth)
    from reachable_ids[OF assms] i(1) obtain t where
      "todo_id (todos s ! i) = ''todo_'' @ str_nat (Suc i) @ ''_'' @ strftime_HMS t" by blast
    with i(2) have "''todo_'' @ str_nat (Suc i) @ ''_'' @ strftime_HMS t = ?new_id" by simp
    then have "Suc i = length (todos s) + 1" by (rule todo_id_text_inj)
    with i(1) show False by simp
  qed
  then show ?thesis by (simp add: add_todo_item_def Let_def)
qed

theorem add_todo_item_fresh_id_witness:
  "reachable first_todo_state \<and>
   map todo_id (todos first_todo_state) = [''todo_1_093000''] \<and>
   (\<exists>new. todos (add_todo_item first_todo_state ''compare with peers'' high None
                   (Some [''todo_1_093000'']) 4 34200000000) = todos first_todo_state @ [new] \<and>
          todo_id new = ''todo_2_093000'' \<and>
          todo_id new \<notin> todo_id ` set (todos first_todo_state))"
proof -
  have r: "reachable first_todo_state"
    unfolding first_todo_state_def demo_state_def by (intro reachable.intros)
  have t: "''todo_'' @ str_nat (length (todos first_todo_state) + 1) @ ''_'' @
             strftime_HMS 34200000000 = ''todo_2_093000''"
    by (simp add: first_todo_state_todos eval_text)
  have ids: "map todo_id (todos first_todo_state) = [''todo_1_093000'']"
    by (simp add: first_todo_state_todos)
  from add_todo_item_fresh_id [OF r, of "''compare with peers''" high None
      "Some [''todo_1_093000'']" 4 34200000000]
  obtain new where n:
    "todos (add_todo_item first_todo_state ''compare with peers'' high None
       (Some [''todo_1_093000'']) 4 34200000000) = todos first_todo_state @ [new]"
    "todo_id new = ''todo_'' @ str_nat (length (todos first_todo_state) + 1) @ ''_'' @
       strftime_HMS 34200000000"
    "todo_id new \<notin> todo_id ` set (todos first_todo_state)"
    by blast
  from n(2) t have "todo_id new = ''todo_2_093000''" by (simp only:)
  with r ids n(1) n(3) show ?thesis by blast
qed

subsection \<open>The delegation tool\<close>

text \<open>
  C1, as the code has it. The claim that a successful delegation marks the record of the
  specialist completed and stores the result there fails: the tool has no access to the
  session state and writes to no record. Here the specialist is registered, its agent
  answers, the answer is returned, and the record is still idle and without results.
\<close>

theorem task_marks_completed_counterexample:
  "map_of (SUB_AGENTS demo_world) ''stock_analyst'' = Some buy_agent \<and>
   buy_agent ''analyze AAPL'' = Returned (Messages [With_content ''BUY'']) \<and>
   fst (task demo_world ''stock_analyst'' ''analyze AAPL'') = Results ''stock_analyst'' ''BUY'' \<and>
   map_of (sub_agents (session (snd (task demo_world ''stock_analyst'' ''analyze AAPL''))))
     ''stock_analyst'' = Some demo_agent_info \<and>
   agent_status_of demo_agent_info = idle \<and>
   agent_status_of demo_agent_info \<noteq> agent_completed \<and>
   agent_results demo_agent_info = None"
  by (simp add: demo_world_def registered_state_def task_def buy_agent_def demo_agent_info_def)

text \<open>
  C1, amended. For every name in the registry of agents, a delegation whose agent
  returns a result with a last message that has content returns that content to the
  caller, after exactly one invocation of the agent; the registry and the session state,
  with its specialist records, are left as they were.
\<close>

theorem task_success:
  assumes "map_of (SUB_AGENTS w) name = Some sub_agent"
    and "sub_agent task_description = Returned (Messages ms)"
    and "ms \<noteq> []" and "last ms = With_content content"
  shows "task w name task_description =
           (Results name content, w\<lparr> invocations := invocations w @ [(name, task_description)] \<rparr>) \<and>
         session (snd (task w name task_description)) = session w \<and>
         SUB_AGENTS (snd (task w name task_description)) = SUB_AGENTS w"
  using assms by (simp add: task_def)

theorem task_success_witness:
  "map_of (SUB_AGENTS demo_world) ''stock_analyst'' = Some buy_agent \<and>
   buy_agent ''analyze AAPL'' = Returned (Messages [With_content ''BUY'']) \<and>
   task demo_world ''stock_analyst'' ''analyze AAPL'' =
     (Results ''stock_analyst'' ''BUY'',
      demo_world\<lparr> invocations := [(''stock_analyst'', ''analyze AAPL'')] \<rparr>)"
proof -
  have a: "map_of (SUB_AGENTS demo_world) ''stock_analyst'' = Some buy_agent"
    by (simp add: demo_world_def)
  have b: "buy_agent ''analyze AAPL'' = Returned (Messages [With_content ''BUY''])"
    by (simp add: buy_agent_def)
  have c: "[With_content ''BUY''] \<noteq> []" by simp
  have d: "last [With_content ''BUY''] = With_content ''BUY''" by simp
  have e: "invocations demo_world = []" by (simp add: demo_world_def)
  from task_success [OF a b c d] a b e show ?thesis by simp
qed

text \<open>
  C5. For every specialist name that is not a key of the registry of agents, the
  delegation returns the not-found reply, which carries the name and the list of the
  known names, and leaves everything as it was: the registry has the same entries (none
  is created for the unknown name), no agent is invoked (the request is not routed to
  another specialist), and the session state is untouched.
\<close>

theorem task_unknown_agent:
  assumes "name \<notin> fst ` set (SUB_AGENTS w)"
  shows "task w name task_description = (Not_found name (map fst (SUB_AGENTS w)), w)"
proof -
  from assms have "map_of (SUB_AGENTS w) name = None"
    by (simp add: map_of_eq_None_iff)
  then show ?thesis by (simp add: task_def)
qed

theorem task_unknown_agent_witness:
  "''unknown_agent'' \<notin> fst ` set (SUB_AGENTS demo_world) \<and>
   task demo_world ''unknown_agent'' ''x'' = (Not_found ''unknown_agent'' [''stock_analyst''], demo_world)"
proof -
  have a: "''unknown_agent'' \<notin> fst ` set (SUB_AGENTS demo_world)"
    by (simp add: demo_world_def)
  from task_unknown_agent [OF a, of "''x''"] a
  show ?thesis by (simp add: demo_world_def)
qed

end
